theory Spec2Isabelle
  imports Main
begin

section \<open>Strings as the crawler uses them\<close>

text \<open>
  A Python \<open>str\<close> is a sequence of code points. The model writes it as a \<open>string\<close>
  whose characters are the code points below 256; all URLs of the examples are ASCII.
\<close>

definition py_isspace :: "char \<Rightarrow> bool" where
  \<comment> \<open>\<open>str.isspace\<close> on one code point below 256: 9-13, 28-32, 133 and 160.\<close>
  "py_isspace c =
     (let n = (of_char c :: nat)
      in (9 \<le> n \<and> n \<le> 13) \<or> (28 \<le> n \<and> n \<le> 32) \<or> n = 133 \<or> n = 160)"

definition strip :: "string \<Rightarrow> string" where
  \<comment> \<open>\<open>s.strip()\<close>: leading and trailing whitespace removed.\<close>
  "strip s = rev (dropWhile py_isspace (rev (dropWhile py_isspace s)))"

fun startswith :: "string \<Rightarrow> string \<Rightarrow> bool" where
  \<comment> \<open>\<open>s.startswith(p)\<close>\<close>
  "startswith s [] = True"
| "startswith [] (p # ps) = False"
| "startswith (c # cs) (p # ps) = (c = p \<and> startswith cs ps)"

definition endswith :: "string \<Rightarrow> string \<Rightarrow> bool" where
  \<comment> \<open>\<open>s.endswith(p)\<close>\<close>
  "endswith s p = startswith (rev s) (rev p)"

fun contains :: "string \<Rightarrow> string \<Rightarrow> bool" where
  \<comment> \<open>\<open>sub in s\<close>\<close>
  "contains [] sub = (sub = [])"
| "contains (c # cs) sub = (startswith (c # cs) sub \<or> contains cs sub)"

definition lower_char :: "char \<Rightarrow> char" where
  \<comment> \<open>\<open>str.lower\<close> on one code point below 256: A-Z and the Latin-1 capitals
      192-222 (without the multiplication sign 215) move up by 32.\<close>
  "lower_char c =
     (let n = (of_char c :: nat)
      in if (65 \<le> n \<and> n \<le> 90) \<or> (192 \<le> n \<and> n \<le> 222 \<and> n \<noteq> 215)
         then char_of (n + 32) else c)"

definition lower :: "string \<Rightarrow> string" where
  "lower s = map lower_char s"

subsection \<open>The LIKE operator of SQLite\<close>

text \<open>
  \<open>db.py\<close> selects rows with \<open>url LIKE ?\<close>, binding the parameter to
  \<open>f"{prefix}%"\<close>. In SQLite, with no ESCAPE clause and the default
  \<open>case_sensitive_like = OFF\<close>, a percent sign in the pattern matches any run of
  characters (also the empty one), an underscore matches any one character, and any
  other pattern character matches itself, where two ASCII letters that differ only in
  case are taken as equal.
\<close>

definition ascii_lower :: "char \<Rightarrow> char" where
  "ascii_lower c =
     (let n = (of_char c :: nat) in if 65 \<le> n \<and> n \<le> 90 then char_of (n + 32) else c)"

definition like_char_eq :: "char \<Rightarrow> char \<Rightarrow> bool" where
  "like_char_eq p c =
     (p = c \<or> ((of_char p :: nat) < 128 \<and> (of_char c :: nat) < 128
               \<and> ascii_lower p = ascii_lower c))"

fun sql_like :: "string \<Rightarrow> string \<Rightarrow> bool" where
  \<comment> \<open>\<open>sql_like pattern s\<close> is the value of \<open>s LIKE pattern\<close>.\<close>
  "sql_like [] s = (s = [])"
| "sql_like (p # ps) [] = (p = CHR ''%'' \<and> sql_like ps [])"
| "sql_like (p # ps) (c # cs) =
     (if p = CHR ''%'' then sql_like ps (c # cs) \<or> sql_like (p # ps) cs
      else (p = CHR ''_'' \<or> like_char_eq p c) \<and> sql_like ps cs)"

definition like_prefix :: "string \<Rightarrow> string \<Rightarrow> bool" where
  \<comment> \<open>\<open>url LIKE ?\<close> with the parameter \<open>f"{prefix}%"\<close>.\<close>
  "like_prefix prefix u = sql_like (prefix @ ''%'') u"

section \<open>The frontier store (db.py)\<close>

text \<open>
  The \<open>status\<close> column is TEXT; every statement of the program writes one of the four
  literals \<open>'pending'\<close>, \<open>'visited'\<close>, \<open>'paused'\<close>, \<open>'error'\<close>.
\<close>

datatype status = Pending | Visited | Paused | Error

type_synonym timestamp = string

text \<open>
  One row of the table \<open>urls\<close>, columns in the order of \<open>CREATE TABLE\<close>, so that
  \<open>row[2]\<close> is \<open>status\<close>, \<open>row[5]\<close> is \<open>retry_count\<close> and \<open>row[6]\<close> is \<open>is_sitemap\<close>.
  A nullable TEXT column is an option.
\<close>

record url_row =
  rowid :: nat
  url :: string
  status :: status
  last_status_change :: "timestamp option"
  last_error :: "string option"
  retry_count :: int
  is_sitemap :: int
  pause_reason :: "string option"

text \<open>
  The table is the list of its rows in ascending \<open>id\<close>. The SELECT statements without
  ORDER BY are read in that order as well. Each operation takes the reading of the clock
  (\<open>self._now()\<close>) as its first argument.
\<close>

type_synonym table = "url_row list"

definition get_url_row :: "table \<Rightarrow> string \<Rightarrow> url_row option" where
  \<comment> \<open>\<open>SELECT * FROM urls WHERE url = ?\<close>, \<open>fetchone()\<close>\<close>
  "get_url_row rows u = find (\<lambda>r. url r = u) rows"

definition next_rowid :: "table \<Rightarrow> nat" where
  \<comment> \<open>AUTOINCREMENT: one more than the largest id (no row is ever deleted).\<close>
  "next_rowid rows = Suc (fold (\<lambda>r m. max (rowid r) m) rows 0)"

definition insert_or_ignore_url ::
  "timestamp \<Rightarrow> string \<Rightarrow> status \<Rightarrow> int \<Rightarrow> table \<Rightarrow> bool \<times> table" where
  \<comment> \<open>The UNIQUE constraint on \<open>url\<close> raises IntegrityError, which returns False.\<close>
  "insert_or_ignore_url now u st sm rows =
     (if \<exists>r \<in> set rows. url r = u then (False, rows)
      else (True, rows @ [\<lparr>rowid = next_rowid rows, url = u, status = st,
                           last_status_change = Some now, last_error = None,
                           retry_count = 0, is_sitemap = sm, pause_reason = None\<rparr>]))"

definition update_row ::
  "timestamp \<Rightarrow> status \<Rightarrow> string option \<Rightarrow> int option \<Rightarrow> string option \<Rightarrow> bool \<Rightarrow> bool
     \<Rightarrow> url_row \<Rightarrow> url_row" where
  \<comment> \<open>The SET list that \<open>update_url_status\<close> assembles, applied to one row.\<close>
  "update_row now st err sm reason clear_pause_reason increment_retry r =
     r\<lparr>status := st,
       last_status_change := Some now,
       last_error := (case err of None \<Rightarrow> last_error r | Some e \<Rightarrow> Some e),
       retry_count := (if increment_retry then retry_count r + 1 else retry_count r),
       is_sitemap := (case sm of None \<Rightarrow> is_sitemap r | Some b \<Rightarrow> b),
       pause_reason := (case reason of Some p \<Rightarrow> Some p
                        | None \<Rightarrow> if clear_pause_reason then None else pause_reason r)\<rparr>"

definition update_url_status ::
  "timestamp \<Rightarrow> string \<Rightarrow> status \<Rightarrow> string option \<Rightarrow> int option \<Rightarrow> string option \<Rightarrow> bool
     \<Rightarrow> bool \<Rightarrow> table \<Rightarrow> table" where
  \<comment> \<open>\<open>UPDATE urls SET ... WHERE url = ?\<close>; the arguments after the status are
      \<open>last_error\<close>, \<open>is_sitemap\<close>, \<open>pause_reason\<close>, \<open>clear_pause_reason\<close>,
      \<open>increment_retry\<close>, with None for an argument left at its default.\<close>
  "update_url_status now u st err sm reason clear_pause_reason increment_retry rows =
     map (\<lambda>r. if url r = u
               then update_row now st err sm reason clear_pause_reason increment_retry r
               else r) rows"

definition load_pending_urls :: "table \<Rightarrow> string list" where
  "load_pending_urls rows = map url (filter (\<lambda>r. status r = Pending) rows)"

definition pause_sel :: "string \<Rightarrow> url_row \<Rightarrow> bool" where
  \<comment> \<open>\<open>WHERE url LIKE ? AND status = 'pending'\<close>\<close>
  "pause_sel prefix r = (like_prefix prefix (url r) \<and> status r = Pending)"

definition db_pause_prefix :: "timestamp \<Rightarrow> string \<Rightarrow> string \<Rightarrow> table \<Rightarrow> nat \<times> table" where
  \<comment> \<open>\<open>CrawlerDB.pause_prefix\<close>: the UPDATE and its \<open>rowcount\<close>.\<close>
  "db_pause_prefix now prefix reason rows =
     (length (filter (pause_sel prefix) rows),
      map (\<lambda>r. if pause_sel prefix r
                then r\<lparr>status := Paused, last_status_change := Some now,
                       pause_reason := Some reason\<rparr>
                else r) rows)"

definition resume_sel :: "string \<Rightarrow> url_row \<Rightarrow> bool" where
  \<comment> \<open>\<open>WHERE url LIKE ? AND status = 'paused'\<close>\<close>
  "resume_sel prefix r = (like_prefix prefix (url r) \<and> status r = Paused)"

definition db_resume_prefix ::
  "timestamp \<Rightarrow> string \<Rightarrow> table \<Rightarrow> (string list \<times> nat) \<times> table" where
  \<comment> \<open>\<open>CrawlerDB.resume_prefix\<close>: the SELECT, then the UPDATE and its \<open>rowcount\<close>.\<close>
  "db_resume_prefix now prefix rows =
     ((map url (filter (resume_sel prefix) rows),
       length (filter (resume_sel prefix) rows)),
      map (\<lambda>r. if resume_sel prefix r
                then r\<lparr>status := Pending, last_status_change := Some now,
                       pause_reason := None\<rparr>
                else r) rows)"

section \<open>The crawler (crawler.py)\<close>

definition MAX_RETRIES :: int where
  "MAX_RETRIES = 3"

text \<open>
  The crawler owns the store and the in-memory queue of pending URLs (head first).
  \<open>main_domain\<close>, a filter of the menus computed with \<open>urlparse\<close>, the log and the JSON
  sink are left out: no operation below reads them.
\<close>

record crawler =
  db :: table
  pending_queue :: "string list"

text \<open>What an operation prints for the operator.\<close>

datatype message =
    Invalid_URL
  | Seeded_URL string
  | URL_already_known string
  | URL_not_found string
  | Paused_URL string
  | URL_is_not_paused string
  | Resumed_URL string
  | Paused_prefix nat string nat
  | Resumed_prefix nat string
  | Index_out_of_range int

subsection \<open>URL helpers\<close>

definition normalize_url :: "string \<Rightarrow> string" where
  "normalize_url raw =
     (let u = strip raw
      in if u = [] then []
         else if startswith u ''http://'' \<or> startswith u ''https://'' then u
         else u)"

definition looks_like_sitemap :: "string \<Rightarrow> bool" where
  "looks_like_sitemap u =
     (let l = lower u
      in endswith l ''.xml'' \<or> endswith l ''.xml.gz'' \<or> contains l ''sitemap'')"

definition put :: "string list \<Rightarrow> string \<Rightarrow> string list" where
  \<comment> \<open>\<open>queue.Queue.put\<close>: append at the tail.\<close>
  "put q u = q @ [u]"

definition enqueue_new_url :: "timestamp \<Rightarrow> string \<Rightarrow> int \<Rightarrow> crawler \<Rightarrow> crawler" where
  "enqueue_new_url now u sm c =
     (case insert_or_ignore_url now u Pending sm (db c) of
        (inserted, rows) \<Rightarrow>
          if inserted then c\<lparr>db := rows, pending_queue := put (pending_queue c) u\<rparr>
          else c\<lparr>db := rows\<rparr>)"

subsection \<open>Public interface\<close>


definition pause_url :: "timestamp \<Rightarrow> string \<Rightarrow> string \<Rightarrow> crawler \<Rightarrow> message \<times> crawler" where
  "pause_url now raw reason c =
     (let u = normalize_url raw
      in case get_url_row (db c) u of
           None \<Rightarrow> (URL_not_found u, c)
         | Some row \<Rightarrow>
             (Paused_URL u,
              c\<lparr>db := update_url_status now u Paused None None (Some reason) False False (db c)\<rparr>))"

fun drain :: "string \<Rightarrow> string list \<Rightarrow> string list \<Rightarrow> nat \<Rightarrow> string list \<times> nat" where
  \<comment> \<open>The \<open>while q\<close> loop of \<open>_remove_from_pending_queue\<close>: \<open>q\<close>, \<open>new_q\<close>, \<open>removed\<close>.\<close>
  "drain prefix [] new_q removed = (new_q, removed)"
| "drain prefix (u # q) new_q removed =
     (if startswith u prefix then drain prefix q new_q (removed + 1)
      else drain prefix q (new_q @ [u]) removed)"

definition remove_from_pending_queue :: "string \<Rightarrow> crawler \<Rightarrow> nat \<times> crawler" where
  "remove_from_pending_queue prefix c =
     (case drain prefix (pending_queue c) [] 0 of
        (new_q, removed) \<Rightarrow> (removed, c\<lparr>pending_queue := new_q\<rparr>))"

definition pause_prefix :: "timestamp \<Rightarrow> string \<Rightarrow> string \<Rightarrow> crawler \<Rightarrow> message \<times> crawler" where
  "pause_prefix now prefix reason c =
     (case db_pause_prefix now prefix reason (db c) of
        (affected, rows) \<Rightarrow>
          (case remove_from_pending_queue prefix (c\<lparr>db := rows\<rparr>) of
             (removed, c') \<Rightarrow> (Paused_prefix affected prefix removed, c')))"

definition resume_url :: "timestamp \<Rightarrow> string \<Rightarrow> crawler \<Rightarrow> message \<times> crawler" where
  "resume_url now raw c =
     (let u = normalize_url raw
      in case get_url_row (db c) u of
           None \<Rightarrow> (URL_not_found u, c)
         | Some row \<Rightarrow>
             if status row \<noteq> Paused then (URL_is_not_paused u, c)
             else (Resumed_URL u,
                   c\<lparr>db := update_url_status now u Pending None None None True False (db c),
                     pending_queue := put (pending_queue c) u\<rparr>))"

definition resume_prefix :: "timestamp \<Rightarrow> string \<Rightarrow> crawler \<Rightarrow> message \<times> crawler" where
  "resume_prefix now prefix c =
     (case db_resume_prefix now prefix (db c) of
        ((urls, affected), rows) \<Rightarrow>
          (Resumed_prefix affected prefix,
           c\<lparr>db := rows, pending_queue := foldl put (pending_queue c) urls\<rparr>))"

subsection \<open>Content handling\<close>

text \<open>
  The parsers are outside the program. An HTML body is given by the anchors that
  \<open>soup.find_all("a", href=True)\<close> yields, each already passed through \<open>urljoin\<close> and
  \<open>urldefrag\<close>. An XML body is given by what \<open>ET.fromstring\<close> returns (after the gzip
  step): a parse failure, or the root's tag together with the \<open>loc\<close> text of each
  \<open>sitemap\<close> child and of each \<open>url\<close> child (None where the child has no \<open>loc\<close>
  or the \<open>loc\<close> has no text).
\<close>

fun handle_html_content :: "timestamp \<Rightarrow> string list \<Rightarrow> crawler \<Rightarrow> crawler" where
  "handle_html_content now [] c = c"
| "handle_html_content now (href # hrefs) c =
     (let new_url = normalize_url href
      in if new_url = [] then handle_html_content now hrefs c
         else if \<not> (startswith new_url ''http://'' \<or> startswith new_url ''https://'')
         then handle_html_content now hrefs c
         else handle_html_content now hrefs (enqueue_new_url now new_url 0 c))"

datatype xml_doc = ParseFailure | Root string "string option list" "string option list"

fun enqueue_locs :: "timestamp \<Rightarrow> int \<Rightarrow> string option list \<Rightarrow> crawler \<Rightarrow> crawler" where
  \<comment> \<open>The body shared by the two \<open>for\<close> loops of \<open>_handle_sitemap_content\<close>, which
      differ in the \<open>is_sitemap\<close> flag they pass on.\<close>
  "enqueue_locs now sm [] c = c"
| "enqueue_locs now sm (loc # locs) c =
     (case loc of
        None \<Rightarrow> enqueue_locs now sm locs c
      | Some text \<Rightarrow>
          if text = [] then enqueue_locs now sm locs c
          else (let u = normalize_url (strip text)
                in if u = [] then enqueue_locs now sm locs c
                   else enqueue_locs now sm locs (enqueue_new_url now u sm c)))"

definition handle_sitemap_content :: "timestamp \<Rightarrow> xml_doc \<Rightarrow> crawler \<Rightarrow> crawler" where
  "handle_sitemap_content now doc c =
     (case doc of
        ParseFailure \<Rightarrow> c
      | Root root_tag sitemap_locs url_locs \<Rightarrow>
          (let tag = lower root_tag
           in if endswith tag ''sitemapindex'' then enqueue_locs now 1 sitemap_locs c
              else if endswith tag ''urlset'' then enqueue_locs now 0 url_locs c
              else c))"

subsection \<open>Worker logic\<close>

text \<open>
  What \<open>session.get\<close> does: it raises (the text of the exception is kept), or it
  returns a response, of which the worker reads the status code, the Content-Type
  header (empty when absent) and the body, given by both of its parses.
\<close>

record response =
  status_code :: nat
  content_type :: string
  xml_body :: xml_doc
  html_anchors :: "string list"

datatype fetched = Raised string | Returned response

function str_nat :: "nat \<Rightarrow> string" where
  \<comment> \<open>The decimal digits of a status code, as the f-string prints them.\<close>
  "str_nat n =
     (if n < 10 then [char_of (48 + n)] else str_nat (n div 10) @ [char_of (48 + n mod 10)])"
  by pat_completeness auto
termination
  by (relation "measure id") auto

declare str_nat.simps [simp del]

definition try_fetch ::
  "timestamp \<Rightarrow> fetched \<Rightarrow> string \<Rightarrow> crawler \<Rightarrow> (string + int) \<times> crawler" where
  \<comment> \<open>The \<open>try\<close> block: \<open>Inl\<close> the text of the exception, \<open>Inr\<close> the sitemap flag
      observed. The parsers and the JSON sink are taken not to raise.\<close>
  "try_fetch now f u c =
     (case f of
        Raised msg \<Rightarrow> (Inl msg, c)
      | Returned resp \<Rightarrow>
          if status_code resp \<noteq> 200 then (Inl (''HTTP '' @ str_nat (status_code resp)), c)
          else if looks_like_sitemap u \<or> contains (content_type resp) ''xml''
          then (Inr 1, handle_sitemap_content now (xml_body resp) c)
          else (Inr 0, handle_html_content now (html_anchors resp) c))"

definition process_url_with_db_check ::
  "timestamp \<Rightarrow> fetched \<Rightarrow> string \<Rightarrow> crawler \<Rightarrow> crawler" where
  "process_url_with_db_check now f u c =
     (case get_url_row (db c) u of
        None \<Rightarrow> c
      | Some row \<Rightarrow>
          if status row \<noteq> Pending then c
          else if (case get_url_row (db c) u of
                     None \<Rightarrow> False
                   | Some row_after \<Rightarrow> status row_after \<noteq> Pending) then c
          else (case try_fetch now f u c of
                  (Inr sm, c1) \<Rightarrow>
                    c1\<lparr>db := update_url_status now u Visited None (Some sm) None False False
                                (db c1)\<rparr>
                | (Inl error_msg, c1) \<Rightarrow>
                    if retry_count row + 1 < MAX_RETRIES
                    then c1\<lparr>db := update_url_status now u Pending (Some error_msg) None None
                                     False True (db c1),
                            pending_queue := put (pending_queue c1) u\<rparr>
                    else c1\<lparr>db := update_url_status now u Error (Some error_msg) None None
                                     False True (db c1)\<rparr>))"

definition worker_step :: "timestamp \<Rightarrow> fetched \<Rightarrow> crawler \<Rightarrow> crawler" where
  \<comment> \<open>One turn of \<open>_worker_loop\<close>: take the head of the queue, if any, and process it.\<close>
  "worker_step now f c =
     (case pending_queue c of
        [] \<Rightarrow> c
      | u # q \<Rightarrow> process_url_with_db_check now f u (c\<lparr>pending_queue := q\<rparr>))"

section \<open>The resume menu (main.py)\<close>


section \<open>Notions used to state the properties\<close>

definition transitioned :: "status \<Rightarrow> status \<Rightarrow> table \<Rightarrow> table \<Rightarrow> string list" where
  \<comment> \<open>The URLs of the rows whose status is \<open>a\<close> in the table before an operation and
      \<open>b\<close> in the table after it, in table order.\<close>
  "transitioned a b before after =
     map (url \<circ> fst) (filter (\<lambda>(r, r'). status r = a \<and> status r' = b) (zip before after))"

section \<open>Auxiliary facts\<close>

lemma startswith_iff: "startswith s p \<longleftrightarrow> (\<exists>t. s = p @ t)"
  by (induction s p rule: startswith.induct) auto

lemma drain_filter:
  "drain prefix q new_q removed =
     (new_q @ filter (\<lambda>u. \<not> startswith u prefix) q,
      removed + length (filter (\<lambda>u. startswith u prefix) q))"
  by (induction q arbitrary: new_q removed) simp_all

lemma foldl_put: "foldl put q us = q @ us"
  by (induction us arbitrary: q) (simp_all add: put_def)

lemma find_url_map:
  assumes "\<And>r. url (g r) = url r"
  shows "find (\<lambda>r. url r = u) (map g rows) = map_option g (find (\<lambda>r. url r = u) rows)"
  using assms by (induction rows) simp_all

lemma get_url_row_update:
  "get_url_row (update_url_status now u st err sm reason cl inc rows) u =
     map_option (update_row now st err sm reason cl inc) (get_url_row rows u)"
proof -
  have "find (\<lambda>r. url r = u) (map (\<lambda>r. if url r = u then update_row now st err sm reason cl inc r else r) rows)
        = map_option (update_row now st err sm reason cl inc) (find (\<lambda>r. url r = u) rows)"
    by (induction rows) (simp_all add: update_row_def)
  then show ?thesis by (simp add: get_url_row_def update_url_status_def)
qed

lemma transitioned_map:
  "transitioned a b rows (map g rows) =
     map url (filter (\<lambda>r. status r = a \<and> status (g r) = b) rows)"
  by (induction rows) (simp_all add: transitioned_def)

lemma db_pause_prefix_rows:
  "snd (db_pause_prefix now prefix reason rows) =
     map (\<lambda>r. if pause_sel prefix r
               then r\<lparr>status := Paused, last_status_change := Some now,
                      pause_reason := Some reason\<rparr>
               else r) rows"
  by (simp add: db_pause_prefix_def)

lemma pause_prefix_db:
  "db (snd (pause_prefix now prefix reason c)) = snd (db_pause_prefix now prefix reason (db c))"
  by (simp add: pause_prefix_def remove_from_pending_queue_def split: prod.splits)

lemma resume_prefix_state:
  "snd (resume_prefix now prefix c) =
     c\<lparr>db := map (\<lambda>r. if resume_sel prefix r
                       then r\<lparr>status := Pending, last_status_change := Some now,
                              pause_reason := None\<rparr>
                       else r) (db c),
       pending_queue := pending_queue c @ map url (filter (resume_sel prefix) (db c))\<rparr>"
  by (simp add: resume_prefix_def db_resume_prefix_def foldl_put)

lemma try_fetch_fails_iff:
  "fst (try_fetch now f u c) = Inl msg \<longleftrightarrow>
     (f = Raised msg \<or>
      (\<exists>resp. f = Returned resp \<and> status_code resp \<noteq> 200
              \<and> msg = ''HTTP '' @ str_nat (status_code resp)))"
  by (cases f) (auto simp: try_fetch_def)

lemma try_fetch_fail_state:
  "fst (try_fetch now f u c) = Inl msg \<Longrightarrow> try_fetch now f u c = (Inl msg, c)"
  by (cases f) (auto simp: try_fetch_def split: if_splits)

lemma normalize_url_strip: "normalize_url raw = strip raw"
  by (simp add: normalize_url_def Let_def)

lemma sql_like_percent_skip: "sql_like pat s \<Longrightarrow> sql_like (CHR ''%'' # pat) s"
  by (cases s) simp_all

lemma sql_like_percent_any: "sql_like ''%'' s"
  by (induction s) simp_all

lemma like_char_eq_refl: "like_char_eq a a"
  by (simp add: like_char_eq_def)

lemma sql_like_literal_prefix: "sql_like (p @ ''%'') (p @ t)"
proof (induction p)
  case Nil
  show ?case using sql_like_percent_any by simp
next
  case (Cons a p)
  show ?case
  proof (cases "a = CHR ''%''")
    case True
    with Cons sql_like_percent_skip show ?thesis by simp
  next
    case False
    with Cons show ?thesis by (simp add: like_char_eq_refl)
  qed
qed

lemma startswith_like_prefix: "startswith u p \<Longrightarrow> like_prefix p u"
  unfolding startswith_iff like_prefix_def using sql_like_literal_prefix by auto

lemma find_append_Some: "find P xs = Some x \<Longrightarrow> find P (xs @ ys) = Some x"
  by (induction xs) (simp_all split: if_splits)

lemma get_url_row_insert:
  "get_url_row rows u = Some r \<Longrightarrow>
   get_url_row (snd (insert_or_ignore_url now v st sm rows)) u = Some r"
  by (simp add: get_url_row_def insert_or_ignore_url_def find_append_Some)

lemma get_url_row_enqueue:
  "get_url_row (db c) u = Some r \<Longrightarrow> get_url_row (db (enqueue_new_url now v sm c)) u = Some r"
  using get_url_row_insert [of "db c" u r now v Pending sm]
  by (cases "insert_or_ignore_url now v Pending sm (db c)") (simp add: enqueue_new_url_def)

lemma get_url_row_html:
  "get_url_row (db c) u = Some r \<Longrightarrow>
   get_url_row (db (handle_html_content now hrefs c)) u = Some r"
  by (induction hrefs arbitrary: c) (simp_all add: Let_def get_url_row_enqueue)

lemma get_url_row_locs:
  "get_url_row (db c) u = Some r \<Longrightarrow> get_url_row (db (enqueue_locs now sm locs c)) u = Some r"
  by (induction locs arbitrary: c) (simp_all add: Let_def get_url_row_enqueue split: option.splits)

lemma get_url_row_sitemap:
  "get_url_row (db c) u = Some r \<Longrightarrow>
   get_url_row (db (handle_sitemap_content now doc c)) u = Some r"
  by (cases doc) (simp_all add: handle_sitemap_content_def Let_def get_url_row_locs)

lemma visited_never_clears_last_error:
  assumes "get_url_row (db c) u = Some row" and "status row = Pending"
    and "f = Returned resp" and "status_code resp = 200"
  shows "\<exists>sm. get_url_row (db (process_url_with_db_check now f u c)) u =
           Some (row\<lparr>status := Visited, last_status_change := Some now, is_sitemap := sm\<rparr>)"
proof -
  obtain sm c1 where t: "try_fetch now f u c = (Inr sm, c1)"
    and g: "get_url_row (db c1) u = Some row"
  proof (cases "looks_like_sitemap u \<or> contains (content_type resp) ''xml''")
    case True
    then have "try_fetch now f u c = (Inr 1, handle_sitemap_content now (xml_body resp) c)"
      using assms(3,4) by (simp add: try_fetch_def)
    with that get_url_row_sitemap [OF assms(1)] show ?thesis by blast
  next
    case False
    then have "try_fetch now f u c = (Inr 0, handle_html_content now (html_anchors resp) c)"
      using assms(3,4) by (simp add: try_fetch_def)
    with that get_url_row_html [OF assms(1)] show ?thesis by blast
  qed
  have "process_url_with_db_check now f u c =
          c1\<lparr>db := update_url_status now u Visited None (Some sm) None False False (db c1)\<rparr>"
    using assms(1,2) t by (simp add: process_url_with_db_check_def)
  then show ?thesis using g by (auto simp: get_url_row_update update_row_def)
qed

lemma html_inserts_only_http:
  "r \<in> set (db (handle_html_content now hrefs c)) \<Longrightarrow>
   r \<in> set (db c) \<or> startswith (url r) ''http://'' \<or> startswith (url r) ''https://''"
proof (induction hrefs arbitrary: c)
  case Nil
  then show ?case by simp
next
  case (Cons h hs)
  have e: "x \<in> set (db (enqueue_new_url now v 0 c)) \<Longrightarrow> x \<in> set (db c) \<or> url x = v" for x v
    by (auto simp: enqueue_new_url_def insert_or_ignore_url_def split: if_splits)
  show ?case
  proof (cases "normalize_url h = [] \<or>
                \<not> (startswith (normalize_url h) ''http://'' \<or> startswith (normalize_url h) ''https://'')")
    case True
    then have "handle_html_content now (h # hs) c = handle_html_content now hs c"
      by (auto simp: Let_def)
    with Cons.prems have "r \<in> set (db (handle_html_content now hs c))" by simp
    from Cons.IH [OF this] show ?thesis .
  next
    case False
    then have "handle_html_content now (h # hs) c =
               handle_html_content now hs (enqueue_new_url now (normalize_url h) 0 c)"
      by (auto simp: Let_def)
    with Cons.prems
    have "r \<in> set (db (handle_html_content now hs (enqueue_new_url now (normalize_url h) 0 c)))"
      by simp
    from Cons.IH [OF this] e [of r "normalize_url h"] False show ?thesis by auto
  qed
qed

lemma db_pause_prefix_untouched:
  "i < length rows \<Longrightarrow> status (rows ! i) \<noteq> Pending \<Longrightarrow>
   snd (db_pause_prefix now prefix reason rows) ! i = rows ! i"
  by (simp add: db_pause_prefix_def pause_sel_def)

lemma db_pause_prefix_literal:
  "i < length rows \<Longrightarrow> status (rows ! i) = Pending \<Longrightarrow> startswith (url (rows ! i)) prefix \<Longrightarrow>
   snd (db_pause_prefix now prefix reason rows) ! i =
     (rows ! i)\<lparr>status := Paused, last_status_change := Some now, pause_reason := Some reason\<rparr>"
  by (simp add: db_pause_prefix_def pause_sel_def startswith_like_prefix)






section \<open>Removal from the work queue\<close>

text \<open>
  Claim C9. For every queue content and every prefix, \<open>_remove_from_pending_queue\<close>
  removes exactly the queued entries that start with the prefix, returns how many they
  were, and keeps the other entries in their original relative order: the new queue is
  the old one filtered, the count is the length of what was filtered out.
\<close>

theorem remove_by_prefix_exact:
  "remove_from_pending_queue prefix c =
     (length (filter (\<lambda>u. startswith u prefix) (pending_queue c)),
      c\<lparr>pending_queue := filter (\<lambda>u. \<not> startswith u prefix) (pending_queue c)\<rparr>)"
  by (simp add: remove_from_pending_queue_def drain_filter)

section \<open>Resuming a URL that is not paused\<close>

text \<open>
  Claim C8. When the record that \<open>resume_url\<close> looks up exists and its status is not
  Paused, the operation only reports that the URL is not paused: the store and the work
  queue are returned as they were.
\<close>

theorem resume_url_not_paused_noop:
  assumes "get_url_row (db c) (normalize_url raw) = Some row"
    and "status row \<noteq> Paused"
  shows "resume_url now raw c = (URL_is_not_paused (normalize_url raw), c)"
  using assms by (simp add: resume_url_def Let_def)

theorem resume_url_not_paused_noop_witness:
  "get_url_row
     (db \<lparr>db = [\<lparr>rowid = 1, url = ''https://example.com/'', status = Visited,
                 last_status_change = Some ''2024-01-01T00:00:00'', last_error = None,
                 retry_count = 0, is_sitemap = 0, pause_reason = None\<rparr>],
          pending_queue = []\<rparr>)
     (normalize_url '' https://example.com/ '')
   = Some \<lparr>rowid = 1, url = ''https://example.com/'', status = Visited,
            last_status_change = Some ''2024-01-01T00:00:00'', last_error = None,
            retry_count = 0, is_sitemap = 0, pause_reason = None\<rparr>
   \<and> resume_url ''2024-01-02T00:00:00'' '' https://example.com/ ''
       \<lparr>db = [\<lparr>rowid = 1, url = ''https://example.com/'', status = Visited,
                last_status_change = Some ''2024-01-01T00:00:00'', last_error = None,
                retry_count = 0, is_sitemap = 0, pause_reason = None\<rparr>],
         pending_queue = []\<rparr>
     = (URL_is_not_paused ''https://example.com/'',
        \<lparr>db = [\<lparr>rowid = 1, url = ''https://example.com/'', status = Visited,
                 last_status_change = Some ''2024-01-01T00:00:00'', last_error = None,
                 retry_count = 0, is_sitemap = 0, pause_reason = None\<rparr>],
          pending_queue = []\<rparr>)"
proof -
  let ?row = "\<lparr>rowid = 1, url = ''https://example.com/'', status = Visited,
               last_status_change = Some ''2024-01-01T00:00:00'', last_error = None,
               retry_count = 0, is_sitemap = 0, pause_reason = None\<rparr>"
  let ?c = "\<lparr>db = [?row], pending_queue = []\<rparr>"
  have n: "normalize_url '' https://example.com/ '' = ''https://example.com/''"
    by code_simp
  have h: "get_url_row (db ?c) (normalize_url '' https://example.com/ '') = Some ?row"
    unfolding n by (simp add: get_url_row_def)
  have s: "status ?row \<noteq> Paused" by simp
  show ?thesis
    using h resume_url_not_paused_noop [OF h s, of "''2024-01-02T00:00:00''"] n by simp
qed

section \<open>Inserting a URL twice\<close>

text \<open>
  Claim C5. For a URL the store does not know yet, \<open>insert_or_ignore_url\<close> returns
  True and appends one fresh row; a second call with the same URL then returns False
  and leaves the table as it was, so that exactly one row carries the URL. More
  generally, whenever the table already holds a row of the URL, with whatever status,
  retry count, error text and pause reason that row has reached in the meantime, the
  call returns False and the table, hence every field of that row, is unchanged.
\<close>

theorem insert_twice:
  "((\<forall>r \<in> set rows. url r \<noteq> u) \<longrightarrow>
      insert_or_ignore_url t1 u st sm rows =
        (True, rows @ [\<lparr>rowid = next_rowid rows, url = u, status = st,
                        last_status_change = Some t1, last_error = None,
                        retry_count = 0, is_sitemap = sm, pause_reason = None\<rparr>])
      \<and> insert_or_ignore_url t2 u st2 sm2
          (rows @ [\<lparr>rowid = next_rowid rows, url = u, status = st,
                    last_status_change = Some t1, last_error = None,
                    retry_count = 0, is_sitemap = sm, pause_reason = None\<rparr>]) =
        (False, rows @ [\<lparr>rowid = next_rowid rows, url = u, status = st,
                         last_status_change = Some t1, last_error = None,
                         retry_count = 0, is_sitemap = sm, pause_reason = None\<rparr>])
      \<and> length (filter (\<lambda>r. url r = u)
            (rows @ [\<lparr>rowid = next_rowid rows, url = u, status = st,
                      last_status_change = Some t1, last_error = None,
                      retry_count = 0, is_sitemap = sm, pause_reason = None\<rparr>])) = 1)
   \<and> ((\<exists>r \<in> set rows. url r = u) \<longrightarrow>
        insert_or_ignore_url t2 u st2 sm2 rows = (False, rows))"
proof -
  have "filter (\<lambda>r. url r = u) rows = []" if "\<forall>r \<in> set rows. url r \<noteq> u"
    using that by (induction rows) simp_all
  then show ?thesis by (simp add: insert_or_ignore_url_def)
qed

theorem insert_twice_witness:
  "insert_or_ignore_url ''2024-01-01T00:00:00'' ''https://example.com/'' Pending 0 []
     = (True, [\<lparr>rowid = 1, url = ''https://example.com/'', status = Pending,
                last_status_change = Some ''2024-01-01T00:00:00'', last_error = None,
                retry_count = 0, is_sitemap = 0, pause_reason = None\<rparr>])
   \<and> insert_or_ignore_url ''2024-01-02T00:00:00'' ''https://example.com/'' Pending 1
       [\<lparr>rowid = 1, url = ''https://example.com/'', status = Pending,
         last_status_change = Some ''2024-01-01T00:00:00'', last_error = None,
         retry_count = 0, is_sitemap = 0, pause_reason = None\<rparr>]
     = (False, [\<lparr>rowid = 1, url = ''https://example.com/'', status = Pending,
                 last_status_change = Some ''2024-01-01T00:00:00'', last_error = None,
                 retry_count = 0, is_sitemap = 0, pause_reason = None\<rparr>])
   \<and> insert_or_ignore_url ''2024-01-05T00:00:00'' ''https://example.com/'' Pending 1
       [\<lparr>rowid = 1, url = ''https://example.com/'', status = Paused,
         last_status_change = Some ''2024-01-04T00:00:00'', last_error = Some ''HTTP 503'',
         retry_count = 2, is_sitemap = 0, pause_reason = Some ''user-pause''\<rparr>,
        \<lparr>rowid = 2, url = ''https://example.com/a'', status = Error,
         last_status_change = Some ''2024-01-03T00:00:00'', last_error = Some ''timed out'',
         retry_count = 3, is_sitemap = 0, pause_reason = None\<rparr>]
     = (False,
        [\<lparr>rowid = 1, url = ''https://example.com/'', status = Paused,
          last_status_change = Some ''2024-01-04T00:00:00'', last_error = Some ''HTTP 503'',
          retry_count = 2, is_sitemap = 0, pause_reason = Some ''user-pause''\<rparr>,
         \<lparr>rowid = 2, url = ''https://example.com/a'', status = Error,
          last_status_change = Some ''2024-01-03T00:00:00'', last_error = Some ''timed out'',
          retry_count = 3, is_sitemap = 0, pause_reason = None\<rparr>])"
proof -
  let ?rows = "[\<lparr>rowid = 1, url = ''https://example.com/'', status = Paused,
         last_status_change = Some ''2024-01-04T00:00:00'', last_error = Some ''HTTP 503'',
         retry_count = 2, is_sitemap = 0, pause_reason = Some ''user-pause''\<rparr>,
        \<lparr>rowid = 2, url = ''https://example.com/a'', status = Error,
         last_status_change = Some ''2024-01-03T00:00:00'', last_error = Some ''timed out'',
         retry_count = 3, is_sitemap = 0, pause_reason = None\<rparr>]"
  have h: "\<forall>r \<in> set ([] :: table). url r \<noteq> ''https://example.com/''" by simp
  have k: "\<exists>r \<in> set ?rows. url r = ''https://example.com/''" by simp
  have n: "next_rowid [] = 1" by (simp add: next_rowid_def)
  note a = insert_twice [where rows = "[]" and u = "''https://example.com/''"
                           and ?t1.0 = "''2024-01-01T00:00:00''" and st = Pending and sm = 0
                           and ?t2.0 = "''2024-01-02T00:00:00''" and ?st2.0 = Pending
                           and ?sm2.0 = 1,
                         THEN conjunct1, THEN mp, OF h, unfolded n]
  note b = insert_twice [where rows = ?rows and u = "''https://example.com/''"
                           and ?t2.0 = "''2024-01-05T00:00:00''" and ?st2.0 = Pending
                           and ?sm2.0 = 1,
                         THEN conjunct2, THEN mp, OF k]
  from a b show ?thesis by simp
qed

section \<open>Pausing and resuming by prefix\<close>

text \<open>
  Take a store in which no Paused record is selected by the test that both store
  operations apply (\<open>url LIKE prefix%\<close>). Run \<open>pause_prefix\<close> and then
  \<open>resume_prefix\<close> with the same prefix. Then the URLs that the resume takes from
  Paused to Pending are the URLs that the pause took from Pending to Paused; exactly
  those URLs are appended to the work queue; and the table is the one before the pause,
  except that the rows the pause moved carry the time of the resume and an empty
  \<open>pause_reason\<close>.
\<close>

lemma resume_prefix_after_pause_prefix:
  assumes "\<forall>r \<in> set (db c). status r = Paused \<longrightarrow> \<not> like_prefix prefix (url r)"
  shows "transitioned Paused Pending
           (db (snd (pause_prefix t1 prefix reason c)))
           (db (snd (resume_prefix t2 prefix (snd (pause_prefix t1 prefix reason c)))))
         = transitioned Pending Paused (db c) (db (snd (pause_prefix t1 prefix reason c)))
       \<and> pending_queue (snd (resume_prefix t2 prefix (snd (pause_prefix t1 prefix reason c))))
         = pending_queue (snd (pause_prefix t1 prefix reason c))
           @ transitioned Pending Paused (db c) (db (snd (pause_prefix t1 prefix reason c)))
       \<and> db (snd (resume_prefix t2 prefix (snd (pause_prefix t1 prefix reason c))))
         = map (\<lambda>r. if url r \<in> set (transitioned Pending Paused (db c)
                                       (db (snd (pause_prefix t1 prefix reason c))))
                       \<and> status r = Pending
                     then r\<lparr>status := Pending, last_status_change := Some t2,
                            pause_reason := None\<rparr>
                     else r) (db c)"
proof -
  let ?P = "\<lambda>r. if pause_sel prefix r
                 then r\<lparr>status := Paused, last_status_change := Some t1,
                        pause_reason := Some reason\<rparr>
                 else r"
  let ?R = "\<lambda>r. if resume_sel prefix r
                 then r\<lparr>status := Pending, last_status_change := Some t2,
                        pause_reason := None\<rparr>
                 else r"
  let ?c1 = "snd (pause_prefix t1 prefix reason c)"
  let ?c2 = "snd (resume_prefix t2 prefix ?c1)"
  have db1: "db ?c1 = map ?P (db c)"
    by (simp add: pause_prefix_db db_pause_prefix_rows)
  have db2: "db ?c2 = map ?R (db ?c1)"
    by (simp add: resume_prefix_state)
  have sel: "resume_sel prefix (?P r) = pause_sel prefix r" if "r \<in> set (db c)" for r
    using assms that by (auto simp: resume_sel_def pause_sel_def)
  have moved: "transitioned Pending Paused (db c) (db ?c1) = map url (filter (pause_sel prefix) (db c))"
  proof -
    have "(status r = Pending \<and> status (?P r) = Paused) = pause_sel prefix r" for r
      by (auto simp: pause_sel_def)
    then show ?thesis unfolding db1 transitioned_map by simp
  qed
  have urlP: "url (?P r) = url r" for r by simp
  have resumed_sel: "map url (filter (resume_sel prefix) (db ?c1)) = map url (filter (pause_sel prefix) (db c))"
  proof -
    have "filter (resume_sel prefix) (map ?P (db c)) = map ?P (filter (\<lambda>r. resume_sel prefix (?P r)) (db c))"
      by (simp add: filter_map comp_def)
    also have "filter (\<lambda>r. resume_sel prefix (?P r)) (db c) = filter (pause_sel prefix) (db c)"
      by (rule filter_cong) (simp_all add: sel)
    finally show ?thesis unfolding db1 using urlP by (simp add: comp_def)
  qed
  have resumed: "transitioned Paused Pending (db ?c1) (db ?c2) = map url (filter (resume_sel prefix) (db ?c1))"
  proof -
    have "(status r = Paused \<and> status (?R r) = Pending) = resume_sel prefix r" for r
      by (auto simp: resume_sel_def)
    then show ?thesis unfolding db2 transitioned_map by simp
  qed
  have one: "transitioned Paused Pending (db ?c1) (db ?c2) = transitioned Pending Paused (db c) (db ?c1)"
    by (simp only: resumed moved resumed_sel)
  have two: "pending_queue ?c2 = pending_queue ?c1 @ transitioned Pending Paused (db c) (db ?c1)"
    by (simp only: moved resumed_sel[symmetric]) (simp add: resume_prefix_state)
  have three: "db ?c2 = map (\<lambda>r. if url r \<in> set (transitioned Pending Paused (db c) (db ?c1))
                       \<and> status r = Pending
                     then r\<lparr>status := Pending, last_status_change := Some t2,
                            pause_reason := None\<rparr>
                     else r) (db c)"
  proof -
    have "?R (?P r) = (if url r \<in> set (map url (filter (pause_sel prefix) (db c))) \<and> status r = Pending
                     then r\<lparr>status := Pending, last_status_change := Some t2,
                            pause_reason := None\<rparr>
                     else r)" if "r \<in> set (db c)" for r
    proof (cases "pause_sel prefix r")
      case True
      then have "url r \<in> set (map url (filter (pause_sel prefix) (db c)))" using that by force
      moreover have "status r = Pending" using True by (simp add: pause_sel_def)
      ultimately show ?thesis using True sel[OF that] by simp
    next
      case False
      have "\<not> (url r \<in> set (map url (filter (pause_sel prefix) (db c))) \<and> status r = Pending)"
      proof
        assume a: "url r \<in> set (map url (filter (pause_sel prefix) (db c))) \<and> status r = Pending"
        then obtain r' where "pause_sel prefix r'" "url r' = url r" by auto
        then have "like_prefix prefix (url r)" by (simp add: pause_sel_def)
        with a False show False by (simp add: pause_sel_def)
      qed
      moreover have "\<not> resume_sel prefix r" using sel[OF that] False by simp
      ultimately show ?thesis using False by auto
    qed
    then have "map (\<lambda>r. ?R (?P r)) (db c) = map (\<lambda>r. if url r \<in> set (map url (filter (pause_sel prefix) (db c))) \<and> status r = Pending
                     then r\<lparr>status := Pending, last_status_change := Some t2,
                            pause_reason := None\<rparr>
                     else r) (db c)"
      by (intro map_cong refl)
    moreover have "db ?c2 = map (\<lambda>r. ?R (?P r)) (db c)"
      unfolding db2 db1 by (simp add: comp_def)
    ultimately show ?thesis by (simp only: moved)
  qed
  from one two three show ?thesis by (intro conjI)
qed

lemma resume_prefix_after_pause_prefix_example:
  "transitioned Paused Pending
     (db (snd (pause_prefix ''2024-01-02T00:00:00'' ''https://a.com/x'' ''user-pause-prefix''
        \<lparr>db = [\<lparr>rowid = 1, url = ''https://a.com/x/1'', status = Pending,
                 last_status_change = Some ''2024-01-01T00:00:00'', last_error = None,
                 retry_count = 0, is_sitemap = 0, pause_reason = None\<rparr>,
               \<lparr>rowid = 2, url = ''https://a.com/y'', status = Pending,
                 last_status_change = Some ''2024-01-01T00:00:00'', last_error = None,
                 retry_count = 0, is_sitemap = 0, pause_reason = None\<rparr>,
               \<lparr>rowid = 3, url = ''https://b.org/p'', status = Paused,
                 last_status_change = Some ''2024-01-01T00:00:00'', last_error = None,
                 retry_count = 0, is_sitemap = 0, pause_reason = Some ''user-pause''\<rparr>],
          pending_queue = [''https://a.com/x/1'', ''https://a.com/y'']\<rparr>)))
     (db (snd (resume_prefix ''2024-01-03T00:00:00'' ''https://a.com/x''
        (snd (pause_prefix ''2024-01-02T00:00:00'' ''https://a.com/x'' ''user-pause-prefix''
           \<lparr>db = [\<lparr>rowid = 1, url = ''https://a.com/x/1'', status = Pending,
                    last_status_change = Some ''2024-01-01T00:00:00'', last_error = None,
                    retry_count = 0, is_sitemap = 0, pause_reason = None\<rparr>,
                  \<lparr>rowid = 2, url = ''https://a.com/y'', status = Pending,
                    last_status_change = Some ''2024-01-01T00:00:00'', last_error = None,
                    retry_count = 0, is_sitemap = 0, pause_reason = None\<rparr>,
                  \<lparr>rowid = 3, url = ''https://b.org/p'', status = Paused,
                    last_status_change = Some ''2024-01-01T00:00:00'', last_error = None,
                    retry_count = 0, is_sitemap = 0, pause_reason = Some ''user-pause''\<rparr>],
             pending_queue = [''https://a.com/x/1'', ''https://a.com/y'']\<rparr>)))))
   = [''https://a.com/x/1'']
   \<and> pending_queue
       (snd (resume_prefix ''2024-01-03T00:00:00'' ''https://a.com/x''
          (snd (pause_prefix ''2024-01-02T00:00:00'' ''https://a.com/x'' ''user-pause-prefix''
             \<lparr>db = [\<lparr>rowid = 1, url = ''https://a.com/x/1'', status = Pending,
                      last_status_change = Some ''2024-01-01T00:00:00'', last_error = None,
                      retry_count = 0, is_sitemap = 0, pause_reason = None\<rparr>,
                    \<lparr>rowid = 2, url = ''https://a.com/y'', status = Pending,
                      last_status_change = Some ''2024-01-01T00:00:00'', last_error = None,
                      retry_count = 0, is_sitemap = 0, pause_reason = None\<rparr>,
                    \<lparr>rowid = 3, url = ''https://b.org/p'', status = Paused,
                      last_status_change = Some ''2024-01-01T00:00:00'', last_error = None,
                      retry_count = 0, is_sitemap = 0, pause_reason = Some ''user-pause''\<rparr>],
               pending_queue = [''https://a.com/x/1'', ''https://a.com/y'']\<rparr>))))
     = [''https://a.com/y'', ''https://a.com/x/1'']"
proof -
  let ?c = "\<lparr>db = [\<lparr>rowid = 1, url = ''https://a.com/x/1'', status = Pending,
                    last_status_change = Some ''2024-01-01T00:00:00'', last_error = None,
                    retry_count = 0, is_sitemap = 0, pause_reason = None\<rparr>,
                  \<lparr>rowid = 2, url = ''https://a.com/y'', status = Pending,
                    last_status_change = Some ''2024-01-01T00:00:00'', last_error = None,
                    retry_count = 0, is_sitemap = 0, pause_reason = None\<rparr>,
                  \<lparr>rowid = 3, url = ''https://b.org/p'', status = Paused,
                    last_status_change = Some ''2024-01-01T00:00:00'', last_error = None,
                    retry_count = 0, is_sitemap = 0, pause_reason = Some ''user-pause''\<rparr>],
             pending_queue = [''https://a.com/x/1'', ''https://a.com/y'']\<rparr>"
  have l3: "\<not> like_prefix ''https://a.com/x'' ''https://b.org/p''"
    by code_simp
  have h: "\<forall>r \<in> set (db ?c). status r = Paused \<longrightarrow> \<not> like_prefix ''https://a.com/x'' (url r)"
    using l3 by simp
  have e1: "transitioned Pending Paused (db ?c)
              (db (snd (pause_prefix ''2024-01-02T00:00:00'' ''https://a.com/x''
                          ''user-pause-prefix'' ?c)))
            = [''https://a.com/x/1'']"
    by code_simp
  have e2: "pending_queue (snd (pause_prefix ''2024-01-02T00:00:00'' ''https://a.com/x''
                                  ''user-pause-prefix'' ?c))
            = [''https://a.com/y'']"
    by code_simp
  note t = resume_prefix_after_pause_prefix
             [OF h, of "''2024-01-02T00:00:00''" "''user-pause-prefix''" "''2024-01-03T00:00:00''"]
  have a: "transitioned Paused Pending
     (db (snd (pause_prefix ''2024-01-02T00:00:00'' ''https://a.com/x'' ''user-pause-prefix'' ?c)))
     (db (snd (resume_prefix ''2024-01-03T00:00:00'' ''https://a.com/x''
        (snd (pause_prefix ''2024-01-02T00:00:00'' ''https://a.com/x'' ''user-pause-prefix'' ?c)))))
     = [''https://a.com/x/1'']"
    using t [THEN conjunct1] e1 by (rule trans)
  have b: "pending_queue
       (snd (resume_prefix ''2024-01-03T00:00:00'' ''https://a.com/x''
          (snd (pause_prefix ''2024-01-02T00:00:00'' ''https://a.com/x'' ''user-pause-prefix'' ?c))))
     = [''https://a.com/y'', ''https://a.com/x/1'']"
    using t [THEN conjunct2, THEN conjunct1] unfolding e1 e2 by simp
  from a b show ?thesis by (rule conjI)
qed

text \<open>
  Claim C4. With "matching the prefix" read as "the URL starts with the prefix", the
  round trip fails, by the wildcards of LIKE. The store below holds no Paused record
  whose URL starts with \<open>https://a.com/x_y\<close>; \<open>https://a.com/xay\<close> was paused on its
  own. The pause moves one URL, \<open>https://a.com/x_y/1\<close>; the resume that follows sets
  both records to Pending and pushes both URLs onto the work queue, because the
  underscore of the pattern matches the \<open>a\<close> of \<open>xay\<close>.
\<close>

theorem resume_prefix_resumes_unmoved_url:
  "transitioned Pending Paused
     [\<lparr>rowid = 1, url = ''https://a.com/x_y/1'', status = Pending,
       last_status_change = Some ''2024-01-01T00:00:00'', last_error = None,
       retry_count = 0, is_sitemap = 0, pause_reason = None\<rparr>,
      \<lparr>rowid = 2, url = ''https://a.com/xay'', status = Paused,
       last_status_change = Some ''2024-01-01T00:00:00'', last_error = None,
       retry_count = 0, is_sitemap = 0, pause_reason = Some ''user-pause''\<rparr>]
     (db (snd (pause_prefix ''2024-01-02T00:00:00'' ''https://a.com/x_y'' ''user-pause-prefix''
        \<lparr>db = [\<lparr>rowid = 1, url = ''https://a.com/x_y/1'', status = Pending,
                 last_status_change = Some ''2024-01-01T00:00:00'', last_error = None,
                 retry_count = 0, is_sitemap = 0, pause_reason = None\<rparr>,
                \<lparr>rowid = 2, url = ''https://a.com/xay'', status = Paused,
                 last_status_change = Some ''2024-01-01T00:00:00'', last_error = None,
                 retry_count = 0, is_sitemap = 0, pause_reason = Some ''user-pause''\<rparr>],
          pending_queue = [''https://a.com/x_y/1'']\<rparr>)))
   = [''https://a.com/x_y/1'']
   \<and> snd (resume_prefix ''2024-01-03T00:00:00'' ''https://a.com/x_y''
       (snd (pause_prefix ''2024-01-02T00:00:00'' ''https://a.com/x_y'' ''user-pause-prefix''
          \<lparr>db = [\<lparr>rowid = 1, url = ''https://a.com/x_y/1'', status = Pending,
                   last_status_change = Some ''2024-01-01T00:00:00'', last_error = None,
                   retry_count = 0, is_sitemap = 0, pause_reason = None\<rparr>,
                  \<lparr>rowid = 2, url = ''https://a.com/xay'', status = Paused,
                   last_status_change = Some ''2024-01-01T00:00:00'', last_error = None,
                   retry_count = 0, is_sitemap = 0, pause_reason = Some ''user-pause''\<rparr>],
            pending_queue = [''https://a.com/x_y/1'']\<rparr>)))
     = \<lparr>db = [\<lparr>rowid = 1, url = ''https://a.com/x_y/1'', status = Pending,
                last_status_change = Some ''2024-01-03T00:00:00'', last_error = None,
                retry_count = 0, is_sitemap = 0, pause_reason = None\<rparr>,
               \<lparr>rowid = 2, url = ''https://a.com/xay'', status = Pending,
                last_status_change = Some ''2024-01-03T00:00:00'', last_error = None,
                retry_count = 0, is_sitemap = 0, pause_reason = None\<rparr>],
         pending_queue = [''https://a.com/x_y/1'', ''https://a.com/xay'']\<rparr>
   \<and> \<not> startswith ''https://a.com/xay'' ''https://a.com/x_y''"
  by code_simp

section \<open>The failure policy of the worker\<close>

text \<open>
  Claim C1. A worker processes a URL whose record is Pending, and the fetch fails: the
  request raises, or the response is not a 200. Then the record's \<open>retry_count\<close> grows
  by exactly 1 and the error text is stored in \<open>last_error\<close>. If the new count is
  below \<open>MAX_RETRIES\<close> (3), the status is Pending again and the URL is appended to the
  work queue; otherwise the status is Error and the queue is left as it is. Rows of
  other URLs do not change.
\<close>

theorem failed_fetch_retry_policy:
  assumes "get_url_row (db c) u = Some row"
    and "status row = Pending"
    and "f = Raised msg \<or>
         (\<exists>resp. f = Returned resp \<and> status_code resp \<noteq> 200
                 \<and> msg = ''HTTP '' @ str_nat (status_code resp))"
  shows "get_url_row (db (process_url_with_db_check now f u c)) u =
           Some (row\<lparr>status := (if retry_count row + 1 < MAX_RETRIES then Pending else Error),
                     last_status_change := Some now,
                     last_error := Some msg,
                     retry_count := retry_count row + 1\<rparr>)
       \<and> pending_queue (process_url_with_db_check now f u c) =
           (if retry_count row + 1 < MAX_RETRIES then pending_queue c @ [u]
            else pending_queue c)
       \<and> db (process_url_with_db_check now f u c) =
           map (\<lambda>r. if url r = u
                     then r\<lparr>status := (if retry_count row + 1 < MAX_RETRIES then Pending
                                       else Error),
                            last_status_change := Some now,
                            last_error := Some msg,
                            retry_count := retry_count r + 1\<rparr>
                     else r) (db c)
       \<and> MAX_RETRIES = 3"
proof -
  have t: "try_fetch now f u c = (Inl msg, c)"
    using assms(3) try_fetch_fails_iff [of now f u c msg] try_fetch_fail_state by blast
  show ?thesis
  proof (cases "retry_count row + 1 < MAX_RETRIES")
    case True
    then have p: "process_url_with_db_check now f u c =
        c\<lparr>db := update_url_status now u Pending (Some msg) None None False True (db c),
          pending_queue := put (pending_queue c) u\<rparr>"
      using assms(1,2) t by (simp add: process_url_with_db_check_def)
    show ?thesis unfolding p using True assms(1)
      by (simp add: get_url_row_update put_def MAX_RETRIES_def)
         (simp add: update_url_status_def update_row_def)
  next
    case False
    then have p: "process_url_with_db_check now f u c =
        c\<lparr>db := update_url_status now u Error (Some msg) None None False True (db c)\<rparr>"
      using assms(1,2) t by (simp add: process_url_with_db_check_def)
    show ?thesis unfolding p using False assms(1)
      by (simp add: get_url_row_update MAX_RETRIES_def)
         (simp add: update_url_status_def update_row_def)
  qed
qed

theorem failed_fetch_retry_policy_witness:
  "get_url_row
     (db (process_url_with_db_check ''2024-01-02T00:00:00''
            (Returned \<lparr>status_code = 503, content_type = ''text/html'',
                       xml_body = ParseFailure, html_anchors = []\<rparr>)
            ''https://example.com/''
            \<lparr>db = [\<lparr>rowid = 1, url = ''https://example.com/'', status = Pending,
                     last_status_change = Some ''2024-01-01T00:00:00'', last_error = None,
                     retry_count = 1, is_sitemap = 0, pause_reason = None\<rparr>],
              pending_queue = []\<rparr>))
     ''https://example.com/''
   = Some \<lparr>rowid = 1, url = ''https://example.com/'', status = Pending,
            last_status_change = Some ''2024-01-02T00:00:00'', last_error = Some ''HTTP 503'',
            retry_count = 2, is_sitemap = 0, pause_reason = None\<rparr>
   \<and> pending_queue
       (process_url_with_db_check ''2024-01-02T00:00:00''
          (Returned \<lparr>status_code = 503, content_type = ''text/html'',
                     xml_body = ParseFailure, html_anchors = []\<rparr>)
          ''https://example.com/''
          \<lparr>db = [\<lparr>rowid = 1, url = ''https://example.com/'', status = Pending,
                   last_status_change = Some ''2024-01-01T00:00:00'', last_error = None,
                   retry_count = 1, is_sitemap = 0, pause_reason = None\<rparr>],
            pending_queue = []\<rparr>)
     = [''https://example.com/'']
   \<and> get_url_row
       (db (process_url_with_db_check ''2024-01-03T00:00:00''
              (Raised ''timed out'')
              ''https://example.com/''
              \<lparr>db = [\<lparr>rowid = 1, url = ''https://example.com/'', status = Pending,
                       last_status_change = Some ''2024-01-02T00:00:00'',
                       last_error = Some ''HTTP 503'',
                       retry_count = 2, is_sitemap = 0, pause_reason = None\<rparr>],
                pending_queue = []\<rparr>))
       ''https://example.com/''
     = Some \<lparr>rowid = 1, url = ''https://example.com/'', status = Error,
              last_status_change = Some ''2024-01-03T00:00:00'', last_error = Some ''timed out'',
              retry_count = 3, is_sitemap = 0, pause_reason = None\<rparr>
   \<and> pending_queue
       (process_url_with_db_check ''2024-01-03T00:00:00''
          (Raised ''timed out'')
          ''https://example.com/''
          \<lparr>db = [\<lparr>rowid = 1, url = ''https://example.com/'', status = Pending,
                   last_status_change = Some ''2024-01-02T00:00:00'',
                   last_error = Some ''HTTP 503'',
                   retry_count = 2, is_sitemap = 0, pause_reason = None\<rparr>],
            pending_queue = []\<rparr>)
     = []"
proof -
  let ?r1 = "\<lparr>rowid = 1, url = ''https://example.com/'', status = Pending,
              last_status_change = Some ''2024-01-01T00:00:00'', last_error = None,
              retry_count = 1, is_sitemap = 0, pause_reason = None\<rparr>"
  let ?r2 = "\<lparr>rowid = 1, url = ''https://example.com/'', status = Pending,
              last_status_change = Some ''2024-01-02T00:00:00'',
              last_error = Some ''HTTP 503'',
              retry_count = 2, is_sitemap = 0, pause_reason = None\<rparr>"
  let ?resp = "\<lparr>status_code = 503, content_type = ''text/html'',
                xml_body = ParseFailure, html_anchors = []\<rparr>"
  have n: "str_nat 503 = ''503''" by code_simp
  have g1: "get_url_row (db \<lparr>db = [?r1], pending_queue = []\<rparr>) ''https://example.com/'' = Some ?r1"
    by (simp add: get_url_row_def)
  have g2: "get_url_row (db \<lparr>db = [?r2], pending_queue = []\<rparr>) ''https://example.com/'' = Some ?r2"
    by (simp add: get_url_row_def)
  have f1: "Returned ?resp = Raised ''HTTP 503'' \<or>
         (\<exists>resp. Returned ?resp = Returned resp \<and> status_code resp \<noteq> 200
                 \<and> ''HTTP 503'' = ''HTTP '' @ str_nat (status_code resp))"
    using n by (intro disjI2 exI [of _ ?resp]) simp
  have f2: "Raised ''timed out'' = Raised ''timed out'' \<or>
         (\<exists>resp. Raised ''timed out'' = Returned resp \<and> status_code resp \<noteq> 200
                 \<and> ''timed out'' = ''HTTP '' @ str_nat (status_code resp))"
    by simp
  have s1: "status ?r1 = Pending" and s2: "status ?r2 = Pending" by simp_all
  note t1 = failed_fetch_retry_policy [OF g1 s1 f1, of "''2024-01-02T00:00:00''"]
  note t2 = failed_fetch_retry_policy [OF g2 s2 f2, of "''2024-01-03T00:00:00''"]
  have a1: "retry_count ?r1 + 1 < MAX_RETRIES" by (simp add: MAX_RETRIES_def)
  have a2: "\<not> retry_count ?r2 + 1 < MAX_RETRIES" by (simp add: MAX_RETRIES_def)
  note u1 = t1 [unfolded if_P [OF a1]]
  note u2 = t2 [unfolded if_not_P [OF a2]]
  show ?thesis
    using u1 [THEN conjunct1] u1 [THEN conjunct2, THEN conjunct1]
          u2 [THEN conjunct1] u2 [THEN conjunct2, THEN conjunct1]
    by simp
qed

section \<open>Pausing a single URL\<close>

text \<open>
  Claim C10. Whenever the record that \<open>pause_url\<close> looks up exists, whatever its
  status (Visited and Error included), the operation sets it to Paused with the given
  reason and leaves the work queue alone; a following \<open>resume_url\<close> of the same URL
  sets it to Pending, clears the reason and appends the URL to the work queue.
\<close>

theorem pause_url_any_status:
  assumes "get_url_row (db c) (normalize_url raw) = Some row"
  shows "fst (pause_url t1 raw reason c) = Paused_URL (normalize_url raw)
       \<and> db (snd (pause_url t1 raw reason c)) =
           map (\<lambda>r. if url r = normalize_url raw
                     then r\<lparr>status := Paused, last_status_change := Some t1,
                            pause_reason := Some reason\<rparr>
                     else r) (db c)
       \<and> get_url_row (db (snd (pause_url t1 raw reason c))) (normalize_url raw) =
           Some (row\<lparr>status := Paused, last_status_change := Some t1,
                     pause_reason := Some reason\<rparr>)
       \<and> pending_queue (snd (pause_url t1 raw reason c)) = pending_queue c
       \<and> fst (resume_url t2 raw (snd (pause_url t1 raw reason c))) =
           Resumed_URL (normalize_url raw)
       \<and> get_url_row (db (snd (resume_url t2 raw (snd (pause_url t1 raw reason c)))))
           (normalize_url raw) =
           Some (row\<lparr>status := Pending, last_status_change := Some t2,
                     pause_reason := None\<rparr>)
       \<and> pending_queue (snd (resume_url t2 raw (snd (pause_url t1 raw reason c)))) =
           pending_queue c @ [normalize_url raw]"
proof -
  let ?u = "normalize_url raw"
  let ?c' = "c\<lparr>db := update_url_status t1 ?u Paused None None (Some reason) False False (db c)\<rparr>"
  have p: "pause_url t1 raw reason c = (Paused_URL ?u, ?c')"
    using assms by (simp add: pause_url_def Let_def)
  have g: "get_url_row (db ?c') ?u =
             Some (row\<lparr>status := Paused, last_status_change := Some t1,
                       pause_reason := Some reason\<rparr>)"
    using assms by (simp add: get_url_row_update update_row_def)
  have r: "resume_url t2 raw ?c' =
             (Resumed_URL ?u,
              ?c'\<lparr>db := update_url_status t2 ?u Pending None None None True False (db ?c'),
                   pending_queue := put (pending_queue ?c') ?u\<rparr>)"
    using g by (simp add: resume_url_def Let_def)
  have d: "db ?c' = map (\<lambda>r. if url r = ?u
                     then r\<lparr>status := Paused, last_status_change := Some t1,
                            pause_reason := Some reason\<rparr>
                     else r) (db c)"
    by (simp add: update_url_status_def update_row_def)
  have g2: "get_url_row (update_url_status t2 ?u Pending None None None True False (db ?c')) ?u
            = Some (row\<lparr>status := Pending, last_status_change := Some t2,
                     pause_reason := None\<rparr>)"
    unfolding get_url_row_update g by (simp add: update_row_def)
  have c1: "snd (pause_url t1 raw reason c) = ?c'" using p by simp
  have "fst (pause_url t1 raw reason c) = Paused_URL ?u" using p by simp
  moreover have "db (snd (pause_url t1 raw reason c)) =
           map (\<lambda>r. if url r = ?u
                     then r\<lparr>status := Paused, last_status_change := Some t1,
                            pause_reason := Some reason\<rparr>
                     else r) (db c)"
    unfolding c1 by (rule d)
  moreover have "get_url_row (db (snd (pause_url t1 raw reason c))) ?u =
           Some (row\<lparr>status := Paused, last_status_change := Some t1,
                     pause_reason := Some reason\<rparr>)"
    unfolding c1 by (rule g)
  moreover have "pending_queue (snd (pause_url t1 raw reason c)) = pending_queue c"
    unfolding c1 by simp
  moreover have "fst (resume_url t2 raw (snd (pause_url t1 raw reason c))) = Resumed_URL ?u"
    unfolding c1 r by simp
  moreover have "get_url_row (db (snd (resume_url t2 raw (snd (pause_url t1 raw reason c))))) ?u =
           Some (row\<lparr>status := Pending, last_status_change := Some t2,
                     pause_reason := None\<rparr>)"
    unfolding c1 r using g2 by simp
  moreover have "pending_queue (snd (resume_url t2 raw (snd (pause_url t1 raw reason c)))) =
           pending_queue c @ [?u]"
    unfolding c1 r by (simp add: put_def)
  ultimately show ?thesis by (intro conjI)
qed

theorem pause_url_any_status_witness:
  "get_url_row
     (db (snd (pause_url ''2024-01-02T00:00:00'' ''https://example.com/a'' ''user-pause''
            \<lparr>db = [\<lparr>rowid = 1, url = ''https://example.com/a'', status = Visited,
                     last_status_change = Some ''2024-01-01T00:00:00'', last_error = None,
                     retry_count = 0, is_sitemap = 0, pause_reason = None\<rparr>,
                   \<lparr>rowid = 2, url = ''https://example.com/b'', status = Error,
                     last_status_change = Some ''2024-01-01T00:00:00'',
                     last_error = Some ''HTTP 404'',
                     retry_count = 3, is_sitemap = 0, pause_reason = None\<rparr>],
              pending_queue = []\<rparr>)))
     ''https://example.com/a''
   = Some \<lparr>rowid = 1, url = ''https://example.com/a'', status = Paused,
            last_status_change = Some ''2024-01-02T00:00:00'', last_error = None,
            retry_count = 0, is_sitemap = 0, pause_reason = Some ''user-pause''\<rparr>
   \<and> get_url_row
       (db (snd (resume_url ''2024-01-03T00:00:00'' ''https://example.com/b''
              (snd (pause_url ''2024-01-02T00:00:00'' ''https://example.com/b'' ''user-pause''
                 \<lparr>db = [\<lparr>rowid = 1, url = ''https://example.com/a'', status = Visited,
                          last_status_change = Some ''2024-01-01T00:00:00'', last_error = None,
                          retry_count = 0, is_sitemap = 0, pause_reason = None\<rparr>,
                        \<lparr>rowid = 2, url = ''https://example.com/b'', status = Error,
                          last_status_change = Some ''2024-01-01T00:00:00'',
                          last_error = Some ''HTTP 404'',
                          retry_count = 3, is_sitemap = 0, pause_reason = None\<rparr>],
                   pending_queue = []\<rparr>)))))
       ''https://example.com/b''
     = Some \<lparr>rowid = 2, url = ''https://example.com/b'', status = Pending,
              last_status_change = Some ''2024-01-03T00:00:00'',
              last_error = Some ''HTTP 404'',
              retry_count = 3, is_sitemap = 0, pause_reason = None\<rparr>
   \<and> pending_queue
       (snd (resume_url ''2024-01-03T00:00:00'' ''https://example.com/b''
          (snd (pause_url ''2024-01-02T00:00:00'' ''https://example.com/b'' ''user-pause''
             \<lparr>db = [\<lparr>rowid = 1, url = ''https://example.com/a'', status = Visited,
                      last_status_change = Some ''2024-01-01T00:00:00'', last_error = None,
                      retry_count = 0, is_sitemap = 0, pause_reason = None\<rparr>,
                    \<lparr>rowid = 2, url = ''https://example.com/b'', status = Error,
                      last_status_change = Some ''2024-01-01T00:00:00'',
                      last_error = Some ''HTTP 404'',
                      retry_count = 3, is_sitemap = 0, pause_reason = None\<rparr>],
               pending_queue = []\<rparr>))))
     = [''https://example.com/b'']"
proof -
  let ?ra = "\<lparr>rowid = 1, url = ''https://example.com/a'', status = Visited,
              last_status_change = Some ''2024-01-01T00:00:00'', last_error = None,
              retry_count = 0, is_sitemap = 0, pause_reason = None\<rparr>"
  let ?rb = "\<lparr>rowid = 2, url = ''https://example.com/b'', status = Error,
              last_status_change = Some ''2024-01-01T00:00:00'',
              last_error = Some ''HTTP 404'',
              retry_count = 3, is_sitemap = 0, pause_reason = None\<rparr>"
  let ?c = "\<lparr>db = [?ra, ?rb], pending_queue = []\<rparr>"
  have na: "normalize_url ''https://example.com/a'' = ''https://example.com/a''"
    by code_simp
  have nb: "normalize_url ''https://example.com/b'' = ''https://example.com/b''"
    by code_simp
  have ga: "get_url_row (db ?c) (normalize_url ''https://example.com/a'') = Some ?ra"
    unfolding na by (simp add: get_url_row_def)
  have gb: "get_url_row (db ?c) (normalize_url ''https://example.com/b'') = Some ?rb"
    unfolding nb by (simp add: get_url_row_def)
  note ta = pause_url_any_status [OF ga, of "''2024-01-02T00:00:00''" "''user-pause''",
                                  unfolded na]
  note tb = pause_url_any_status [OF gb, of "''2024-01-02T00:00:00''" "''user-pause''"
                                  "''2024-01-03T00:00:00''", unfolded nb]
  show ?thesis
    using ta [THEN conjunct2, THEN conjunct2, THEN conjunct1]
          tb [THEN conjunct2, THEN conjunct2, THEN conjunct2, THEN conjunct2, THEN conjunct2]
    by simp
qed

section \<open>Invalid operator input\<close>




section \<open>A successful visit and \<open>last_error\<close>\<close>

text \<open>
  Claim C2. The worker marks a fetched record Visited, but \<open>last_error\<close> is not
  cleared: the call passes \<open>last_error=None\<close>, which \<open>update_url_status\<close> reads as
  "leave the column alone". A Pending record that failed once with \<open>HTTP 503\<close> and
  is then fetched with status 200 ends Visited with \<open>last_error\<close> still \<open>HTTP 503\<close>.
  (\<open>visited_never_clears_last_error\<close> above shows the same for every record.)
\<close>

theorem visited_keeps_last_error:
  "process_url_with_db_check ''2024-01-02T00:00:00''
     (Returned \<lparr>status_code = 200, content_type = ''text/html'',
                xml_body = ParseFailure, html_anchors = []\<rparr>)
     ''https://example.com/''
     \<lparr>db = [\<lparr>rowid = 1, url = ''https://example.com/'', status = Pending,
              last_status_change = Some ''2024-01-01T00:00:00'',
              last_error = Some ''HTTP 503'',
              retry_count = 1, is_sitemap = 0, pause_reason = None\<rparr>],
       pending_queue = []\<rparr>
   = \<lparr>db = [\<lparr>rowid = 1, url = ''https://example.com/'', status = Visited,
              last_status_change = Some ''2024-01-02T00:00:00'',
              last_error = Some ''HTTP 503'',
              retry_count = 1, is_sitemap = 0, pause_reason = None\<rparr>],
       pending_queue = []\<rparr>"
  by code_simp

section \<open>Which records \<open>pause_prefix\<close> selects\<close>

text \<open>
  Claim C3. The store selects with \<open>url LIKE prefix%\<close>, not with a literal prefix
  test: an underscore or a percent sign of the prefix is a wildcard, and ASCII letters
  match in either case. With the prefix \<open>https://example.com/a_b\<close> the Pending record
  \<open>https://example.com/a-b/page\<close>, which does not start with the prefix, is paused and
  counted. (By \<open>db_pause_prefix_literal\<close> every Pending row whose URL does start with
  the prefix is paused, and by \<open>db_pause_prefix_untouched\<close> no other status is touched;
  the queue removal of the same operation uses \<open>startswith\<close>.)
\<close>

theorem pause_prefix_like_wildcard:
  "db_pause_prefix ''2024-01-02T00:00:00'' ''https://example.com/a_b'' ''user-pause-prefix''
     [\<lparr>rowid = 1, url = ''https://example.com/a-b/page'', status = Pending,
       last_status_change = Some ''2024-01-01T00:00:00'', last_error = None,
       retry_count = 0, is_sitemap = 0, pause_reason = None\<rparr>]
   = (1, [\<lparr>rowid = 1, url = ''https://example.com/a-b/page'', status = Paused,
            last_status_change = Some ''2024-01-02T00:00:00'', last_error = None,
            retry_count = 0, is_sitemap = 0, pause_reason = Some ''user-pause-prefix''\<rparr>])
   \<and> \<not> startswith ''https://example.com/a-b/page'' ''https://example.com/a_b''"
  by code_simp

section \<open>Links without an http scheme\<close>

text \<open>
  Claim C6. The HTML handler drops a link whose normalized URL starts with neither
  \<open>http://\<close> nor \<open>https://\<close> (\<open>html_inserts_only_http\<close> above); the sitemap
  handler has no such filter. A \<open>urlset\<close> sitemap listing \<open>ftp://example.com/file.txt\<close>
  inserts that URL as a Pending record and queues it, while the same link in an HTML
  page is dropped.
\<close>

theorem sitemap_enqueues_non_http:
  "handle_sitemap_content ''2024-01-01T00:00:00''
     (Root ''{http://www.sitemaps.org/schemas/sitemap/0.9}urlset'' []
        [Some ''ftp://example.com/file.txt''])
     \<lparr>db = [], pending_queue = []\<rparr>
   = \<lparr>db = [\<lparr>rowid = 1, url = ''ftp://example.com/file.txt'', status = Pending,
              last_status_change = Some ''2024-01-01T00:00:00'', last_error = None,
              retry_count = 0, is_sitemap = 0, pause_reason = None\<rparr>],
       pending_queue = [''ftp://example.com/file.txt'']\<rparr>
   \<and> handle_html_content ''2024-01-01T00:00:00'' [''ftp://example.com/file.txt'']
       \<lparr>db = [], pending_queue = []\<rparr>
     = \<lparr>db = [], pending_queue = []\<rparr>"
  by code_simp

end
